theory Spec2Isabelle
  imports Complex_Main
begin

section \<open>Error values and the transport client (services/coingeckoApi.ts)\<close>

text \<open>
  \<open>ApiError\<close> is the interface \<open>{ status: number; message: string }\<close> of types/index.ts.
  HTTP status codes are integers.  Strings are byte lists; the Spanish messages of
  utils/constants.ts and utils/chartUtils.ts are written in UTF-8, so an accented letter is
  two bytes.  The search strings passed to \<open>str_includes\<close> below are all ASCII, for which a
  match on UTF-8 bytes and a match on UTF-16 code units coincide.
\<close>

record ApiError =
  status :: int
  message :: string

text \<open>
  The part of an Axios response that \<open>handleApiError\<close> reads: \<open>response.status\<close> and
  \<open>response.data?.error\<close> (\<open>None\<close> when the body is missing or has no \<open>error\<close> field).
\<close>

record AxiosResponse =
  resp_status :: int
  resp_error :: "string option"

text \<open>
  What a \<open>catch (error)\<close> clause can receive (\<open>error: unknown\<close>):
  \<^item> \<open>AxiosError msg response\<close>: an \<open>Error\<close> for which \<open>axios.isAxiosError\<close> holds, with its
    message and its optional response;
  \<^item> \<open>PlainError msg\<close>: any other \<open>Error\<close> instance (\<open>new Error(msg)\<close>);
  \<^item> \<open>ApiErrorObject e\<close>: the plain object that \<open>withRetry\<close> throws, which is not an
    \<open>Error\<close> instance;
  \<^item> \<open>OtherValue\<close>: anything else.
\<close>

datatype js_thrown =
    AxiosError string "AxiosResponse option"
  | PlainError string
  | ApiErrorObject ApiError
  | OtherValue

text \<open>\<open>ERROR_MESSAGES\<close> and \<open>RETRY_CONFIG\<close> of utils/constants.ts.\<close>

definition ERROR_MESSAGES_RATE_LIMIT :: string where
  "ERROR_MESSAGES_RATE_LIMIT = ''Demasiadas solicitudes. Esperando para reintentar...''"

definition ERROR_MESSAGES_NETWORK_ERROR :: string where
  "ERROR_MESSAGES_NETWORK_ERROR =
     ''Error de conexi'' @ [CHR 0xC3, CHR 0xB3] @ ''n. Verifica tu conexi''
       @ [CHR 0xC3, CHR 0xB3] @ ''n a internet.''"

definition ERROR_MESSAGES_GENERIC :: string where
  "ERROR_MESSAGES_GENERIC =
     ''Ocurri'' @ [CHR 0xC3, CHR 0xB3] @ '' un error inesperado. Por favor, intenta nuevamente.''"

definition RETRY_MAX_RETRIES :: int where
  "RETRY_MAX_RETRIES = 3"

definition RETRY_INITIAL_DELAY :: int where
  "RETRY_INITIAL_DELAY = 1000"

definition RETRY_MAX_DELAY :: int where
  "RETRY_MAX_DELAY = 10000"

definition RETRY_BACKOFF_MULTIPLIER :: int where
  "RETRY_BACKOFF_MULTIPLIER = 2"

text \<open>
  \<open>handleApiError\<close>.  \<open>axiosError.response?.status || 0\<close> is 0 without a response (and 0
  is falsy, so a status of 0 stays 0); \<open>responseData?.error || GENERIC\<close> falls back to the
  generic message when the field is absent or the empty string.
\<close>

definition handleApiError :: "js_thrown \<Rightarrow> ApiError" where
  "handleApiError error =
     (case error of
        AxiosError msg response \<Rightarrow>
          (let st = (case response of None \<Rightarrow> 0 | Some r \<Rightarrow> resp_status r) in
           if st = 429 then \<lparr>status = 429, message = ERROR_MESSAGES_RATE_LIMIT\<rparr>
           else (case response of
                   None \<Rightarrow> \<lparr>status = 0, message = ERROR_MESSAGES_NETWORK_ERROR\<rparr>
                 | Some r \<Rightarrow>
                     \<lparr>status = st,
                      message = (case resp_error r of
                                   None \<Rightarrow> ERROR_MESSAGES_GENERIC
                                 | Some t \<Rightarrow> if t = [] then ERROR_MESSAGES_GENERIC else t)\<rparr>))
      | _ \<Rightarrow> \<lparr>status = 500, message = ERROR_MESSAGES_GENERIC\<rparr>)"

section \<open>The retry policy: withRetry\<close>

text \<open>
  The operation is an effectful thunk \<open>() => Promise<T>\<close>.  It is modelled by the outcome of
  each of its invocations: \<open>operation k\<close> is what the \<open>k\<close>-th call (counted from 0) settles
  to, \<open>Inr v\<close> for a value and \<open>Inl e\<close> for a rejection with \<open>e\<close>.

  A run of \<open>withRetry\<close> is described by what it settles to, how many times it invoked the
  operation, and the delays (in ms) it awaited in between.  \<open>maxRetries\<close> is an integer (the
  source's \<open>number\<close> restricted to integral values, which is what every caller passes).
\<close>

record 'a retry_run =
  outcome :: "js_thrown + 'a"
  attempts :: nat
  delays :: "int list"

text \<open>
  The \<open>for (let attempt = 0; attempt <= maxRetries; attempt++)\<close> loop.  The loop variable
  \<open>attempt\<close> is also the number of invocations made so far.  The last equation branch is the
  statement after the loop, \<open>throw lastError || new Error(ERROR_MESSAGES.GENERIC)\<close>.
\<close>

function withRetry_loop ::
  "(nat \<Rightarrow> js_thrown + 'a) \<Rightarrow> int \<Rightarrow> nat \<Rightarrow> ApiError option \<Rightarrow> int list \<Rightarrow> 'a retry_run"
where
  "withRetry_loop operation maxRetries attempt lastError ds =
     (if int attempt \<le> maxRetries then
        (case operation attempt of
           Inr v \<Rightarrow> \<lparr>outcome = Inr v, attempts = Suc attempt, delays = ds\<rparr>
         | Inl error \<Rightarrow>
             (let lastError' = handleApiError error in
              if status lastError' \<ge> 400 \<and> status lastError' < 500 \<and> status lastError' \<noteq> 429
              then \<lparr>outcome = Inl (ApiErrorObject lastError'), attempts = Suc attempt, delays = ds\<rparr>
              else if int attempt = maxRetries
              then \<lparr>outcome = Inl (ApiErrorObject lastError'), attempts = Suc attempt, delays = ds\<rparr>
              else
                (let retryDelay = RETRY_INITIAL_DELAY * RETRY_BACKOFF_MULTIPLIER ^ attempt in
                 withRetry_loop operation maxRetries (Suc attempt) (Some lastError')
                   (ds @ [min retryDelay RETRY_MAX_DELAY]))))
      else
        \<lparr>outcome = Inl (case lastError of
                          Some e \<Rightarrow> ApiErrorObject e
                        | None \<Rightarrow> PlainError ERROR_MESSAGES_GENERIC),
         attempts = attempt, delays = ds\<rparr>)"
  by pat_completeness auto
termination
  by (relation "measure (\<lambda>(operation, maxRetries, attempt, lastError, ds).
                   nat (maxRetries + 1 - int attempt))") auto

definition withRetry :: "(nat \<Rightarrow> js_thrown + 'a) \<Rightarrow> int \<Rightarrow> 'a retry_run" where
  "withRetry operation maxRetries = withRetry_loop operation maxRetries 0 None []"

text \<open>
  The test of line 199, \<open>status >= 400 && status < 500 && status !== 429\<close>, under which
  \<open>withRetry\<close> rethrows at once, and the delay awaited after failed attempt number
  \<open>attempt\<close>.
\<close>

definition isClientError :: "ApiError \<Rightarrow> bool" where
  "isClientError e = (status e \<ge> 400 \<and> status e < 500 \<and> status e \<noteq> 429)"

definition backoff :: "nat \<Rightarrow> int" where
  "backoff attempt =
     min (RETRY_INITIAL_DELAY * RETRY_BACKOFF_MULTIPLIER ^ attempt) RETRY_MAX_DELAY"

subsection \<open>fetchChartData\<close>

text \<open>
  \<open>TIMEFRAMES\<close> of utils/constants.ts, a lookup by tag; a tag that is not a key gives
  \<open>undefined\<close>, here \<open>None\<close>.
\<close>

record TimeFrameInfo =
  label :: string
  days :: real

definition TIMEFRAMES :: "string \<Rightarrow> TimeFrameInfo option" where
  "TIMEFRAMES tag =
     (if tag = ''1h'' then Some \<lparr>label = ''1H'', days = 4 / 100\<rparr>
      else if tag = ''24h'' then Some \<lparr>label = ''24H'', days = 1\<rparr>
      else if tag = ''7d'' then Some \<lparr>label = ''7D'', days = 7\<rparr>
      else if tag = ''30d'' then Some \<lparr>label = ''30D'', days = 30\<rparr>
      else if tag = ''1y'' then Some \<lparr>label = ''1Y'', days = 365\<rparr>
      else None)"

text \<open>
  \<open>fetchChartData\<close>.  The HTTP request \<open>apiClient.get(url, {params: {vs_currency, days}})\<close>
  is the environment: \<open>get url vs_currency days\<close> is what the request settles to.
\<close>

definition fetchChartData ::
  "(string \<Rightarrow> string \<Rightarrow> real \<Rightarrow> js_thrown + 'r) \<Rightarrow> string \<Rightarrow> string \<Rightarrow> string \<Rightarrow> js_thrown + 'r"
where
  "fetchChartData get coinId timeframe currency =
     (case TIMEFRAMES timeframe of
        None \<Rightarrow> Inl (PlainError (''Invalid timeframe: '' @ timeframe))
      | Some timeframeConfig \<Rightarrow>
          get (''/coins/'' @ coinId @ ''/market_chart'') currency (days timeframeConfig))"

subsection \<open>Example operations\<close>

text \<open>A server answering 500 on every request, and one that recovers on the third.\<close>

definition serverError500 :: js_thrown where
  "serverError500 =
     AxiosError ''Request failed with status code 500''
       (Some \<lparr>resp_status = 500, resp_error = None\<rparr>)"

definition alwaysServerFailure :: "nat \<Rightarrow> js_thrown + nat" where
  "alwaysServerFailure k = Inl serverError500"

definition failsTwiceThenSucceeds :: "nat \<Rightarrow> js_thrown + nat" where
  "failsTwiceThenSucceeds k = (if k < 2 then Inl serverError500 else Inr 7)"

text \<open>A request rejected with 404, and a chart request for a tag that is no timeframe.\<close>

definition notFound404 :: js_thrown where
  "notFound404 =
     AxiosError ''Request failed with status code 404''
       (Some \<lparr>resp_status = 404, resp_error = Some ''coin not found''\<rparr>)"

definition alwaysNotFound :: "nat \<Rightarrow> js_thrown + nat" where
  "alwaysNotFound k = Inl notFound404"

definition unreachableApi :: "string \<Rightarrow> string \<Rightarrow> real \<Rightarrow> js_thrown + nat" where
  "unreachableApi url currency d = Inl (AxiosError ''Network Error'' None)"

definition invalidTimeframeFetch :: "nat \<Rightarrow> js_thrown + nat" where
  "invalidTimeframeFetch k = fetchChartData unreachableApi ''bitcoin'' ''2w'' ''usd''"

section \<open>JavaScript numbers\<close>

text \<open>
  A \<open>number\<close> is a finite value, one of the two infinities, or \<open>NaN\<close>.  A finite value is
  carried as the real number it denotes: the rounding and the overflow of IEEE doubles are
  not modelled, nor is the sign of zero.  In \<open>downsampleData\<close> the arithmetic only decides
  which point of a bucket is kept.
\<close>

datatype jsnum = Fin real | PosInf | NegInf | NaN

fun js_add :: "jsnum \<Rightarrow> jsnum \<Rightarrow> jsnum" where
  "js_add NaN y = NaN"
| "js_add x NaN = NaN"
| "js_add (Fin a) (Fin b) = Fin (a + b)"
| "js_add PosInf NegInf = NaN"
| "js_add NegInf PosInf = NaN"
| "js_add PosInf y = PosInf"
| "js_add NegInf y = NegInf"
| "js_add x PosInf = PosInf"
| "js_add x NegInf = NegInf"

fun js_neg :: "jsnum \<Rightarrow> jsnum" where
  "js_neg (Fin a) = Fin (- a)"
| "js_neg PosInf = NegInf"
| "js_neg NegInf = PosInf"
| "js_neg NaN = NaN"

definition js_sub :: "jsnum \<Rightarrow> jsnum \<Rightarrow> jsnum" where
  "js_sub x y = js_add x (js_neg y)"

fun js_abs :: "jsnum \<Rightarrow> jsnum" where
  "js_abs (Fin a) = Fin \<bar>a\<bar>"
| "js_abs PosInf = PosInf"
| "js_abs NegInf = PosInf"
| "js_abs NaN = NaN"

text \<open>Division by a count \<open>n\<close> (a non-negative integer, hence never \<open>-0\<close>).\<close>

fun js_div_count :: "jsnum \<Rightarrow> nat \<Rightarrow> jsnum" where
  "js_div_count NaN n = NaN"
| "js_div_count PosInf n = PosInf"
| "js_div_count NegInf n = NegInf"
| "js_div_count (Fin a) n =
     (if n = 0 then (if a = 0 then NaN else if a > 0 then PosInf else NegInf)
      else Fin (a / real n))"

text \<open>\<open>x > y\<close>: false as soon as one side is \<open>NaN\<close>.\<close>

fun js_gt :: "jsnum \<Rightarrow> jsnum \<Rightarrow> bool" where
  "js_gt NaN y = False"
| "js_gt x NaN = False"
| "js_gt (Fin a) (Fin b) = (a > b)"
| "js_gt PosInf PosInf = False"
| "js_gt PosInf y = True"
| "js_gt x PosInf = False"
| "js_gt NegInf y = False"
| "js_gt x NegInf = True"

fun js_isNaN :: "jsnum \<Rightarrow> bool" where
  "js_isNaN NaN = True"
| "js_isNaN x = False"

fun js_isFinite :: "jsnum \<Rightarrow> bool" where
  "js_isFinite (Fin a) = True"
| "js_isFinite x = False"

subsection \<open>Rounding to a double\<close>

text \<open>
  The result of an arithmetic operation on doubles is the exact result rounded to the
  nearest double, ties to the even significand.  \<open>roundPositive\<close> scales a positive real
  by powers of two into the range from \<open>2^52\<close> to \<open>2^53\<close>, where the doubles are the
  integers, rounds there and scales back; \<open>toDouble\<close> extends it by sign.  This is
  rounding to 53 significant bits.  The exponent is not bounded: a product that
  overflows is \<open>Infinity\<close> in the source and a number beyond every array length here,
  and both read outside the array.  \<open>js_mul\<close> is the product \<open>a * b\<close> of two finite
  doubles, and a decimal literal such as \<open>0.1\<close> denotes \<open>toDouble (1 / 10)\<close>.
\<close>

definition roundHalfEven :: "real \<Rightarrow> int" where
  "roundHalfEven q =
     (let f = \<lfloor>q\<rfloor>; d = q - of_int f in
      if d < 1 / 2 then f
      else if d > 1 / 2 then f + 1
      else if even f then f else f + 1)"

function roundPositive :: "real \<Rightarrow> real" where
  "roundPositive x =
     (if x \<le> 0 then 0
      else if x < 2 ^ 52 then roundPositive (2 * x) / 2
      else if x \<ge> 2 ^ 53 then 2 * roundPositive (x / 2)
      else of_int (roundHalfEven x))"
  by pat_completeness auto
termination
proof (relation "measure (\<lambda>x. nat \<bar>\<lfloor>log 2 x\<rfloor> - 52\<bar>)")
  show "wf (measure (\<lambda>x. nat \<bar>\<lfloor>log 2 x\<rfloor> - 52\<bar>))" by simp
next
  fix x :: real
  assume a: "\<not> x \<le> 0" "x < 2 ^ 52"
  then have "log 2 x < 52"
    by (subst log_less_iff) (simp_all add: powr_numeral)
  then have f: "\<lfloor>log 2 x\<rfloor> \<le> 51"
    by (simp add: floor_le_iff)
  have "log 2 (2 * x) = 1 + log 2 x" using a(1)
    by (simp add: log_mult)
  then have "\<lfloor>log 2 (2 * x)\<rfloor> = \<lfloor>log 2 x\<rfloor> + 1" by simp
  with f show "(2 * x, x) \<in> measure (\<lambda>x. nat \<bar>\<lfloor>log 2 x\<rfloor> - 52\<bar>)" by simp
next
  fix x :: real
  assume a: "\<not> x \<le> 0" "\<not> x < 2 ^ 52" "2 ^ 53 \<le> x"
  then have "53 \<le> log 2 x"
    by (subst le_log_iff) (simp_all add: powr_numeral)
  then have f: "53 \<le> \<lfloor>log 2 x\<rfloor>"
    by (simp add: le_floor_iff)
  have "log 2 (x / 2) = log 2 x - 1" using a(1)
    by (simp add: log_divide)
  then have "\<lfloor>log 2 (x / 2)\<rfloor> = \<lfloor>log 2 x\<rfloor> - 1" by simp
  with f show "(x / 2, x) \<in> measure (\<lambda>x. nat \<bar>\<lfloor>log 2 x\<rfloor> - 52\<bar>)" by simp
qed

definition toDouble :: "real \<Rightarrow> real" where
  "toDouble x = (if x < 0 then - roundPositive (- x) else roundPositive x)"

definition js_mul :: "real \<Rightarrow> real \<Rightarrow> real" where
  "js_mul a b = toDouble (a * b)"

subsection \<open>Array reads and string search\<close>

text \<open>\<open>xs[i]\<close>: an index outside the array reads \<open>undefined\<close>, here \<open>None\<close>.\<close>

definition js_index :: "'a list \<Rightarrow> int \<Rightarrow> 'a option" where
  "js_index xs i = (if 0 \<le> i \<and> i < int (length xs) then Some (xs ! nat i) else None)"

text \<open>\<open>s.includes(needle)\<close>.\<close>

fun str_includes :: "string \<Rightarrow> string \<Rightarrow> bool" where
  "str_includes [] needle = (needle = [])"
| "str_includes (c # cs) needle = (take (length needle) (c # cs) = needle \<or> str_includes cs needle)"

section \<open>Chart utilities (utils/chartUtils.ts)\<close>

record ChartDataPoint =
  timestamp :: jsnum
  price :: jsnum

subsection \<open>downsampleData\<close>

text \<open>
  The two inner loops \<open>for (let j = start; j < end && j < data.length; j++)\<close>: the first
  accumulates \<open>sum\<close>, the second keeps in \<open>bestPoint\<close> the point with the largest
  \<open>Math.abs(data[j].price - avg)\<close> seen so far (\<open>maxDiff\<close> starts at \<open>-Infinity\<close>).
\<close>

function sumLoop :: "ChartDataPoint list \<Rightarrow> nat \<Rightarrow> nat \<Rightarrow> jsnum \<Rightarrow> jsnum" where
  "sumLoop data endIdx j sumAcc =
     (if j < endIdx \<and> j < length data
      then sumLoop data endIdx (Suc j) (js_add sumAcc (price (data ! j)))
      else sumAcc)"
  by pat_completeness auto
termination
  by (relation "measure (\<lambda>(data, endIdx, j, sumAcc). endIdx - j)") auto

function bestLoop ::
  "ChartDataPoint list \<Rightarrow> nat \<Rightarrow> jsnum \<Rightarrow> nat \<Rightarrow> jsnum \<Rightarrow> ChartDataPoint option
     \<Rightarrow> ChartDataPoint option"
where
  "bestLoop data endIdx avg j maxDiff bestPoint =
     (if j < endIdx \<and> j < length data
      then (let diff = js_abs (js_sub (price (data ! j)) avg) in
            if js_gt diff maxDiff
            then bestLoop data endIdx avg (Suc j) diff (Some (data ! j))
            else bestLoop data endIdx avg (Suc j) maxDiff bestPoint)
      else bestPoint)"
  by pat_completeness auto
termination
  by (relation "measure (\<lambda>(data, endIdx, avg, j, maxDiff, bestPoint). endIdx - j)") auto

text \<open>
  The outer loop \<open>for (let i = 1; i < maxPoints - 1; i++)\<close>, which pushes one point per
  bucket onto \<open>result\<close>.  An entry of \<open>result\<close> is \<open>None\<close> when the source pushes
  \<open>undefined\<close> (a read outside \<open>data\<close>).
\<close>

function bucketLoop ::
  "ChartDataPoint list \<Rightarrow> int \<Rightarrow> nat \<Rightarrow> nat \<Rightarrow> ChartDataPoint option list
     \<Rightarrow> ChartDataPoint option list"
where
  "bucketLoop data maxPoints bucketSize i result =
     (if int i < maxPoints - 1
      then (let start = i * bucketSize;
                endIdx = start + bucketSize;
                sumAcc = sumLoop data endIdx start (Fin 0);
                avg = js_div_count sumAcc (endIdx - start);
                bestPoint = bestLoop data endIdx avg start NegInf (js_index data (int start))
            in bucketLoop data maxPoints bucketSize (Suc i) (result @ [bestPoint]))
      else result)"
  by pat_completeness auto
termination
  by (relation "measure (\<lambda>(data, maxPoints, bucketSize, i, result).
                   nat (maxPoints - 1 - int i))") auto

text \<open>
  \<open>downsampleData\<close>, with \<open>maxPoints\<close> an integer.  \<open>bucketSize\<close> is
  \<open>Math.floor(data.length / maxPoints)\<close>; it is read only inside the outer loop, whose body
  runs only for \<open>maxPoints \<ge> 3\<close>, where the quotient is the natural number below.
\<close>

definition downsampleData :: "ChartDataPoint list \<Rightarrow> int \<Rightarrow> ChartDataPoint option list" where
  "downsampleData data maxPoints =
     (if int (length data) \<le> maxPoints then map Some data
      else (let bucketSize = nat (int (length data) div maxPoints);
                result = [js_index data 0];
                result = bucketLoop data maxPoints bucketSize 1 result
            in result @ [js_index data (int (length data) - 1)]))"

definition getOptimalPoints :: "string \<Rightarrow> int" where
  "getOptimalPoints timeframe =
     (if timeframe = ''1h'' then 60
      else if timeframe = ''24h'' then 96
      else if timeframe = ''7d'' then 168
      else if timeframe = ''30d'' then 180
      else if timeframe = ''1y'' then 365
      else 200)"

subsection \<open>validateChartData\<close>

text \<open>
  \<open>validateChartData\<close> inspects its argument at run time (\<open>Array.isArray\<close>,
  \<open>typeof point.price\<close>), so its argument is modelled as a value that may fail these
  tests: it is an array of points or not an array, and the price of a point is a number
  or a value of another type.
\<close>

datatype js_field = JNumber jsnum | JNotNumber

record RawPoint =
  raw_timestamp :: jsnum
  raw_price :: js_field

datatype js_arg = JArray "RawPoint list" | JNotArray

definition validPoint :: "RawPoint \<Rightarrow> bool" where
  "validPoint point =
     (js_gt (raw_timestamp point) (Fin 0) \<and>
      (case raw_price point of
         JNumber p \<Rightarrow> \<not> js_isNaN p \<and> js_isFinite p
       | JNotNumber \<Rightarrow> False))"

definition validateChartData :: "js_arg \<Rightarrow> bool" where
  "validateChartData arg =
     (case arg of
        JNotArray \<Rightarrow> False
      | JArray data \<Rightarrow>
          if length data = 0 then False
          else (let validPoints = filter validPoint data in length validPoints > 0))"

section \<open>User-visible error messages\<close>

text \<open>
  \<open>error instanceof Error\<close> holds for Axios errors and for plain errors; their \<open>message\<close>
  is then read.
\<close>

definition errorInstanceMessage :: "js_thrown \<Rightarrow> string option" where
  "errorInstanceMessage error =
     (case error of
        AxiosError msg response \<Rightarrow> Some msg
      | PlainError msg \<Rightarrow> Some msg
      | _ \<Rightarrow> None)"

definition CHART_RATE_LIMIT_MESSAGE :: string where
  "CHART_RATE_LIMIT_MESSAGE =
     ''L'' @ [CHR 0xC3, CHR 0xAD]
       @ ''mite de solicitudes excedido. Espera un momento e intenta de nuevo.''"

definition CHART_NETWORK_MESSAGE :: string where
  "CHART_NETWORK_MESSAGE =
     ''Error de conexi'' @ [CHR 0xC3, CHR 0xB3] @ ''n. Verifica tu conexi''
       @ [CHR 0xC3, CHR 0xB3] @ ''n a internet.''"

definition CHART_UNKNOWN_MESSAGE :: string where
  "CHART_UNKNOWN_MESSAGE =
     ''Error desconocido al cargar el gr'' @ [CHR 0xC3, CHR 0xA1] @ ''fico.''"

text \<open>\<open>formatChartError\<close> of utils/chartUtils.ts.\<close>

definition formatChartError :: "js_thrown \<Rightarrow> string" where
  "formatChartError error =
     (case errorInstanceMessage error of
        Some msg \<Rightarrow>
          if str_includes msg ''429'' \<or> str_includes msg ''rate limit'' then CHART_RATE_LIMIT_MESSAGE
          else if str_includes msg ''network'' \<or> str_includes msg ''fetch'' then CHART_NETWORK_MESSAGE
          else ''Error al cargar datos: '' @ msg
      | None \<Rightarrow> CHART_UNKNOWN_MESSAGE)"

text \<open>\<open>getSafeErrorMessage\<close> of utils/security.ts.\<close>

definition getSafeErrorMessage :: "js_thrown \<Rightarrow> string" where
  "getSafeErrorMessage error =
     (case errorInstanceMessage error of
        Some msg \<Rightarrow>
          if str_includes msg ''429'' then ''Rate limit reached. Please wait a moment.''
          else if str_includes msg ''Network'' then ''Network error. Please check your connection.''
          else ''An unexpected error occurred. Please try again.''
      | None \<Rightarrow> ''An unexpected error occurred. Please try again.'')"

section \<open>Series ordering and example data\<close>

text \<open>
  \<open>x <= y\<close> on numbers, and the ordering property of a Series: timestamps never decrease
  along the sequence.
\<close>

definition js_le :: "jsnum \<Rightarrow> jsnum \<Rightarrow> bool" where
  "js_le x y = (x = y \<and> x \<noteq> NaN \<or> js_gt y x)"

definition timestampOrdered :: "ChartDataPoint list \<Rightarrow> bool" where
  "timestampOrdered data = sorted_wrt (\<lambda>p q. js_le (timestamp p) (timestamp q)) data"

definition pt :: "real \<Rightarrow> real \<Rightarrow> ChartDataPoint" where
  "pt t v = \<lparr>timestamp = Fin t, price = Fin v\<rparr>"

text \<open>The series \<open>[{t:0,v:1},{t:1,v:100},{t:2,v:1},{t:3,v:1}]\<close>.\<close>

definition spikeSeries :: "ChartDataPoint list" where
  "spikeSeries = [pt 0 1, pt 1 100, pt 2 1, pt 3 1]"

text \<open>
  Arguments of \<open>validateChartData\<close>: a series with one \<open>NaN\<close> price among valid points,
  and a series whose prices are all \<open>NaN\<close>.
\<close>

definition nanAmongValid :: js_arg where
  "nanAmongValid = JArray
     [\<lparr>raw_timestamp = Fin 1000, raw_price = JNumber (Fin 10)\<rparr>,
      \<lparr>raw_timestamp = Fin 2000, raw_price = JNumber NaN\<rparr>,
      \<lparr>raw_timestamp = Fin 3000, raw_price = JNumber (Fin 12)\<rparr>]"

definition allNaN :: js_arg where
  "allNaN = JArray
     [\<lparr>raw_timestamp = Fin 1000, raw_price = JNumber NaN\<rparr>,
      \<lparr>raw_timestamp = Fin 2000, raw_price = JNumber NaN\<rparr>]"

text \<open>
  Further thrown values: a second 404 rejection whose body carries another text, and a
  plain error whose message names the endpoint.
\<close>

definition notFoundOther :: js_thrown where
  "notFoundOther =
     AxiosError ''Request failed with status code 404''
       (Some \<lparr>resp_status = 404, resp_error = Some ''no row in table coins_v2 at db-internal:5432''\<rparr>)"

definition timeoutError :: js_thrown where
  "timeoutError = PlainError ''timeout of 10000ms exceeded at https://api.coingecko.com/api/v3/coins/markets''"

section \<open>The two-stage filter (hooks/useCryptoFiltering.ts)\<close>

text \<open>
  The fields of the interface \<open>Cryptocurrency\<close> that identify a record or that the filter
  reads.  Numbers received from the API are finite doubles and are carried as the reals
  they denote;
  \<open>price_change_percentage_24h\<close> may be absent or \<open>null\<close>, here \<open>None\<close>.
\<close>

record Cryptocurrency =
  coin_id :: string
  coin_symbol :: string
  coin_name :: string
  current_price :: real
  market_cap :: real
  total_volume :: real
  price_change_percentage_24h :: "real option"

datatype FilterType = Winners | Losers | Volume | All

text \<open>
  \<open>Partial<FilteringOptions>\<close>, the defaults of \<open>FILTER_CONFIG\<close> and \<open>COINGECKO_CONFIG\<close>,
  and the \<open>config\<close> object built with \<open>??\<close>.
\<close>

record FilteringOptions =
  opt_minResultsThreshold :: "int option"
  opt_cacheTime :: "int option"
  opt_dynamicThresholdPercentage :: "real option"

record FilteringConfig =
  minResultsThreshold :: int
  cacheTime :: int
  dynamicThresholdPercentage :: real

definition MIN_RESULTS_THRESHOLD :: int where
  "MIN_RESULTS_THRESHOLD = 5"

definition CACHE_TIME :: int where
  "CACHE_TIME = 2 * 60 * 1000"

definition DYNAMIC_THRESHOLD_PERCENTAGE :: real where
  "DYNAMIC_THRESHOLD_PERCENTAGE = toDouble (1 / 10)"

definition DEFAULT_PER_PAGE :: int where
  "DEFAULT_PER_PAGE = 50"

definition noOptions :: FilteringOptions where
  "noOptions = \<lparr>opt_minResultsThreshold = None, opt_cacheTime = None,
                 opt_dynamicThresholdPercentage = None\<rparr>"

definition filteringConfig :: "FilteringOptions \<Rightarrow> FilteringConfig" where
  "filteringConfig options =
     \<lparr>minResultsThreshold =
        (case opt_minResultsThreshold options of None \<Rightarrow> MIN_RESULTS_THRESHOLD | Some v \<Rightarrow> v),
      cacheTime = (case opt_cacheTime options of None \<Rightarrow> CACHE_TIME | Some v \<Rightarrow> v),
      dynamicThresholdPercentage =
        (case opt_dynamicThresholdPercentage options of
           None \<Rightarrow> DYNAMIC_THRESHOLD_PERCENTAGE
         | Some v \<Rightarrow> v)\<rparr>"

text \<open>\<open>(c.price_change_percentage_24h ?? 0)\<close>.\<close>

definition change24h :: "Cryptocurrency \<Rightarrow> real" where
  "change24h c = (case price_change_percentage_24h c of None \<Rightarrow> 0 | Some v \<Rightarrow> v)"

subsection \<open>Stage 1: filtering the local snapshot\<close>

text \<open>
  \<open>Array.prototype.sort\<close> is stable, and so is \<open>sort_key\<close>.  The comparator
  \<open>(a, b) => key b - key a\<close> sorts by descending key, that is by ascending negated key;
  \<open>(a, b) => key a - key b\<close> sorts by ascending key.
  \<open>sorted[thresholdIndex]?.field ?? 0\<close> is 0 when the index is outside the array and when
  the field is \<open>null\<close>.  The index is
  \<open>Math.ceil(allCryptos.length * dynamicThresholdPercentage)\<close>: the ceiling of the rounded
  double product \<open>js_mul\<close>, not of the exact product (for 100 records and the
  percentage \<open>0.07\<close> the product is \<open>7.000000000000001\<close> and the index is 8).  The
  percentage is a finite double.
\<close>

record ClientStage =
  clientFiltered :: "Cryptocurrency list"
  threshold :: real

definition clientStage :: "Cryptocurrency list \<Rightarrow> FilterType \<Rightarrow> real \<Rightarrow> ClientStage" where
  "clientStage allCryptos filterType percentage =
     (if length allCryptos = 0 then \<lparr>clientFiltered = [], threshold = 0\<rparr>
      else if filterType = All then \<lparr>clientFiltered = allCryptos, threshold = 0\<rparr>
      else
        (let thresholdIndex = \<lceil>js_mul (real (length allCryptos)) percentage\<rceil> in
         case filterType of
           Winners \<Rightarrow>
             (let sorted = sort_key (\<lambda>c. - change24h c) allCryptos;
                  calculatedThreshold =
                    (case js_index sorted thresholdIndex of None \<Rightarrow> 0 | Some c \<Rightarrow> change24h c)
              in \<lparr>clientFiltered =
                     filter (\<lambda>c. change24h c \<ge> calculatedThreshold \<and> change24h c > 0) allCryptos,
                   threshold = calculatedThreshold\<rparr>)
         | Losers \<Rightarrow>
             (let sorted = sort_key change24h allCryptos;
                  calculatedThreshold =
                    (case js_index sorted thresholdIndex of None \<Rightarrow> 0 | Some c \<Rightarrow> change24h c)
              in \<lparr>clientFiltered =
                     filter (\<lambda>c. change24h c \<le> calculatedThreshold \<and> change24h c < 0) allCryptos,
                   threshold = calculatedThreshold\<rparr>)
         | Volume \<Rightarrow>
             (let sorted = sort_key (\<lambda>c. - total_volume c) allCryptos;
                  calculatedThreshold =
                    (case js_index sorted thresholdIndex of None \<Rightarrow> 0 | Some c \<Rightarrow> total_volume c)
              in \<lparr>clientFiltered = filter (\<lambda>c. total_volume c \<ge> calculatedThreshold) allCryptos,
                   threshold = calculatedThreshold\<rparr>)
         | All \<Rightarrow> \<lparr>clientFiltered = allCryptos, threshold = 0\<rparr>))"

text \<open>The escalation decision.\<close>

definition needsApiCall :: "FilterType \<Rightarrow> Cryptocurrency list \<Rightarrow> FilteringConfig \<Rightarrow> bool" where
  "needsApiCall filterType clientFilteredList config =
     (if filterType = All then False
      else int (length clientFilteredList) < minResultsThreshold config)"

subsection \<open>Stage 2: filtering the expanded listing\<close>

text \<open>The \<open>switch\<close> of \<open>queryFn\<close>, applied to the listing that the fetch returned.\<close>

definition remoteFiltered :: "Cryptocurrency list \<Rightarrow> FilterType \<Rightarrow> Cryptocurrency list" where
  "remoteFiltered expandedData filterType =
     (case filterType of
        Winners \<Rightarrow> sort_key (\<lambda>c. - change24h c) (filter (\<lambda>c. change24h c > 0) expandedData)
      | Losers \<Rightarrow> sort_key change24h (filter (\<lambda>c. change24h c < 0) expandedData)
      | Volume \<Rightarrow> sort_key (\<lambda>c. - total_volume c) expandedData
      | All \<Rightarrow> expandedData)"

text \<open>
  \<open>queryFn\<close>: the listing is fetched through \<open>withRetry\<close> with the default number of
  retries; \<open>fetchListing k\<close> is what the \<open>k\<close>-th call of
  \<open>fetchCryptocurrencies(1, DEFAULT_PER_PAGE * 2)\<close> settles to.
\<close>

definition queryFn ::
  "(nat \<Rightarrow> js_thrown + Cryptocurrency list) \<Rightarrow> FilterType \<Rightarrow> js_thrown + Cryptocurrency list"
where
  "queryFn fetchListing filterType =
     (case outcome (withRetry fetchListing RETRY_MAX_RETRIES) of
        Inl e \<Rightarrow> Inl e
      | Inr expandedData \<Rightarrow> Inr (remoteFiltered expandedData filterType))"

subsection \<open>Result selection\<close>

text \<open>
  The rest of the hook.  \<open>apiData\<close> is the \<open>data\<close> of the query, \<open>None\<close> while it is
  \<open>undefined\<close>; the query itself is run by React Query.
\<close>

record FilteringState =
  state_filterType :: FilterType
  state_isClientFiltering :: bool
  state_needsApiCall :: bool
  state_resultCount :: nat
  state_threshold :: real

record FilteringResult =
  filteredCryptos :: "Cryptocurrency list"
  filteringState :: FilteringState
  clientResultCount :: nat
  apiResultCount :: nat

definition useCryptoFiltering ::
  "Cryptocurrency list \<Rightarrow> FilterType \<Rightarrow> FilteringOptions \<Rightarrow> Cryptocurrency list option
     \<Rightarrow> FilteringResult"
where
  "useCryptoFiltering allCryptos filterType options apiData =
     (let config = filteringConfig options;
          stage = clientStage allCryptos filterType (dynamicThresholdPercentage config);
          needs = needsApiCall filterType (clientFiltered stage) config;
          shown = (if \<not> needs then clientFiltered stage
                   else (case apiData of
                           Some d \<Rightarrow> if length d > 0 then d else clientFiltered stage
                         | None \<Rightarrow> clientFiltered stage))
      in \<lparr>filteredCryptos = shown,
          filteringState =
            \<lparr>state_filterType = filterType,
             state_isClientFiltering = (\<not> needs \<or> apiData = None),
             state_needsApiCall = needs,
             state_resultCount = length shown,
             state_threshold = threshold stage\<rparr>,
          clientResultCount = length (clientFiltered stage),
          apiResultCount = (case apiData of None \<Rightarrow> 0 | Some d \<Rightarrow> length d)\<rparr>)"

subsection \<open>Example snapshots\<close>

text \<open>
  A record with a given 24h change, and a listing page of 50 records of which exactly
  three have a positive change (3, 2 and 1 percent; the others 0, -1, ..., -46).
\<close>

definition coin :: "string \<Rightarrow> real option \<Rightarrow> Cryptocurrency" where
  "coin i chg =
     \<lparr>coin_id = i, coin_symbol = i, coin_name = i, current_price = 1, market_cap = 1,
      total_volume = 1, price_change_percentage_24h = chg\<rparr>"

definition page50 :: "Cryptocurrency list" where
  "page50 = map (\<lambda>k. coin ''c'' (Some (3 - real k))) [0..<50]"

text \<open>A listing of 100 records with the changes 100, 99, ..., 1.\<close>

definition page100 :: "Cryptocurrency list" where
  "page100 = map (\<lambda>k. coin ''c'' (Some (100 - real k))) [0..<100]"

text \<open>A snapshot of five records, one of them without a 24h change.\<close>

definition smallPage :: "Cryptocurrency list" where
  "smallPage =
     [coin ''a'' (Some 5), coin ''b'' None, coin ''c'' (Some (-2)), coin ''d'' (Some 1),
      coin ''e'' (Some (-7))]"

text \<open>
  The record \<open>c\<close> with an absent 24h change replaced by the number 0 (a present change
  is kept).
\<close>

definition zeroFill :: "Cryptocurrency \<Rightarrow> Cryptocurrency" where
  "zeroFill c = c\<lparr>price_change_percentage_24h := Some (change24h c)\<rparr>"

section \<open>Properties of the retry policy\<close>

declare withRetry_loop.simps [simp del]

lemma withRetry_loop_success:
  "int k \<le> m \<Longrightarrow> a \<le> k \<Longrightarrow>
   (\<forall>j. a \<le> j \<and> j < k \<longrightarrow> (\<exists>e. op j = Inl e \<and> \<not> isClientError (handleApiError e))) \<Longrightarrow>
   op k = Inr v \<Longrightarrow>
   withRetry_loop op m a le ds =
     \<lparr>outcome = Inr v, attempts = Suc k, delays = ds @ map backoff [a..<k]\<rparr>"
proof (induction "k - a" arbitrary: a le ds)
  case 0
  then have "a = k" by simp
  with 0 show ?case by (subst withRetry_loop.simps) simp
next
  case (Suc n)
  then have ak: "a < k" by simp
  with Suc.prems obtain e where e: "op a = Inl e" "\<not> isClientError (handleApiError e)"
    by auto
  have ne: "int a \<noteq> m" "int a \<le> m" using ak Suc.prems(1) by auto
  have IH: "withRetry_loop op m (Suc a) (Some (handleApiError e)) (ds @ [backoff a])
     = \<lparr>outcome = Inr v, attempts = Suc k,
        delays = (ds @ [backoff a]) @ map backoff [Suc a..<k]\<rparr>"
    using Suc.hyps(2) Suc.prems ak by (intro Suc.hyps(1)) auto
  have "[a..<k] = a # [Suc a..<k]" using ak by (simp add: upt_conv_Cons)
  with IH e ne show ?case
    by (subst withRetry_loop.simps) (simp add: isClientError_def backoff_def Let_def)
qed

lemma withRetry_loop_stop:
  "int k \<le> m \<Longrightarrow> a \<le> k \<Longrightarrow>
   (\<forall>j. a \<le> j \<and> j < k \<longrightarrow> (\<exists>e. op j = Inl e \<and> \<not> isClientError (handleApiError e))) \<Longrightarrow>
   op k = Inl e \<Longrightarrow> isClientError (handleApiError e) \<or> int k = m \<Longrightarrow>
   withRetry_loop op m a le ds =
     \<lparr>outcome = Inl (ApiErrorObject (handleApiError e)), attempts = Suc k,
      delays = ds @ map backoff [a..<k]\<rparr>"
proof (induction "k - a" arbitrary: a le ds)
  case 0
  then have "a = k" by simp
  with 0 show ?case
    by (subst withRetry_loop.simps) (auto simp: isClientError_def Let_def)
next
  case (Suc n)
  then have ak: "a < k" by simp
  with Suc.prems obtain e' where e: "op a = Inl e'" "\<not> isClientError (handleApiError e')"
    by auto
  have ne: "int a \<noteq> m" "int a \<le> m" using ak Suc.prems(1) by auto
  have IH: "withRetry_loop op m (Suc a) (Some (handleApiError e')) (ds @ [backoff a])
     = \<lparr>outcome = Inl (ApiErrorObject (handleApiError e)), attempts = Suc k,
        delays = (ds @ [backoff a]) @ map backoff [Suc a..<k]\<rparr>"
    using Suc.hyps(2) Suc.prems ak by (intro Suc.hyps(1)) auto
  have "[a..<k] = a # [Suc a..<k]" using ak by (simp add: upt_conv_Cons)
  with IH e ne show ?case
    by (subst withRetry_loop.simps) (simp add: isClientError_def backoff_def Let_def)
qed

lemma withRetry_loop_attempts_le:
  "attempts (withRetry_loop op m a le ds) \<le> max a (nat (m + 1))"
proof (induction op m a le ds rule: withRetry_loop.induct)
  case (1 operation maxRetries attempt lastError ds)
  show ?case
    using 1 by (subst withRetry_loop.simps) (auto simp: Let_def split: sum.splits)
qed

lemma withRetry_loop_no_attempt:
  "m < 0 \<Longrightarrow>
   withRetry_loop op m 0 None [] =
     \<lparr>outcome = Inl (PlainError ERROR_MESSAGES_GENERIC), attempts = 0, delays = []\<rparr>"
  by (subst withRetry_loop.simps) simp

lemmas retry_eval =
  withRetry_def withRetry_loop.simps handleApiError_def RETRY_INITIAL_DELAY_def
  RETRY_BACKOFF_MULTIPLIER_def RETRY_MAX_DELAY_def

text \<open>
  Claim C1, as amended.  The second argument of \<open>withRetry\<close> counts retries, not attempts:
  \<open>withRetry(operation, maxRetries)\<close> invokes the operation at most \<open>maxRetries + 1\<close> times.
  If the attempts before attempt \<open>k \<le> maxRetries\<close> all failed with an error that is retried
  and attempt \<open>k\<close> succeeds, its value is returned after \<open>k + 1\<close> invocations.  If all
  attempts up to number \<open>maxRetries\<close> fail, the classified error of the last one is thrown
  after \<open>maxRetries + 1\<close> invocations.  In particular, an operation that fails twice with a
  server failure (status at least 500) and then succeeds makes \<open>withRetry(operation, 3)\<close>
  return the success value after exactly 3 invocations.
\<close>

theorem withRetry_attempts:
  fixes operation :: "nat \<Rightarrow> js_thrown + 'a"
  shows
  "attempts (withRetry operation maxRetries) \<le> nat (maxRetries + 1)
   \<and> (\<forall>k v. int k \<le> maxRetries
          \<and> (\<forall>j<k. \<exists>e. operation j = Inl e \<and> \<not> isClientError (handleApiError e))
          \<and> operation k = Inr v
        \<longrightarrow> outcome (withRetry operation maxRetries) = Inr v
            \<and> attempts (withRetry operation maxRetries) = Suc k)
   \<and> (\<forall>e. 0 \<le> maxRetries
          \<and> (\<forall>j<nat maxRetries. \<exists>e'. operation j = Inl e' \<and> \<not> isClientError (handleApiError e'))
          \<and> operation (nat maxRetries) = Inl e
        \<longrightarrow> outcome (withRetry operation maxRetries) = Inl (ApiErrorObject (handleApiError e))
            \<and> attempts (withRetry operation maxRetries) = nat maxRetries + 1)
   \<and> (\<forall>e0 e1 v. operation 0 = Inl e0 \<and> status (handleApiError e0) \<ge> 500
          \<and> operation 1 = Inl e1 \<and> status (handleApiError e1) \<ge> 500
          \<and> operation 2 = Inr v
        \<longrightarrow> outcome (withRetry operation 3) = Inr v \<and> attempts (withRetry operation 3) = 3)"
proof (intro conjI allI impI)
  show "attempts (withRetry operation maxRetries) \<le> nat (maxRetries + 1)"
    using withRetry_loop_attempts_le [of operation maxRetries 0 None "[]"]
    by (simp add: withRetry_def)
next
  fix k v
  assume h: "int k \<le> maxRetries
          \<and> (\<forall>j<k. \<exists>e. operation j = Inl e \<and> \<not> isClientError (handleApiError e))
          \<and> operation k = Inr v"
  then have "withRetry operation maxRetries
               = \<lparr>outcome = Inr v, attempts = Suc k, delays = [] @ map backoff [0..<k]\<rparr>"
    unfolding withRetry_def by (intro withRetry_loop_success) auto
  then show "outcome (withRetry operation maxRetries) = Inr v"
    and "attempts (withRetry operation maxRetries) = Suc k" by simp_all
next
  fix e
  assume h: "0 \<le> maxRetries
          \<and> (\<forall>j<nat maxRetries. \<exists>e'. operation j = Inl e' \<and> \<not> isClientError (handleApiError e'))
          \<and> operation (nat maxRetries) = Inl e"
  then have "withRetry operation maxRetries
               = \<lparr>outcome = Inl (ApiErrorObject (handleApiError e)),
                  attempts = Suc (nat maxRetries),
                  delays = [] @ map backoff [0..<nat maxRetries]\<rparr>"
    unfolding withRetry_def by (intro withRetry_loop_stop) auto
  then show "outcome (withRetry operation maxRetries) = Inl (ApiErrorObject (handleApiError e))"
    and "attempts (withRetry operation maxRetries) = nat maxRetries + 1" by simp_all
next
  fix e0 e1 v
  assume h: "operation 0 = Inl e0 \<and> status (handleApiError e0) \<ge> 500
          \<and> operation 1 = Inl e1 \<and> status (handleApiError e1) \<ge> 500
          \<and> operation 2 = Inr v"
  have "\<exists>e. operation j = Inl e \<and> \<not> isClientError (handleApiError e)" if "j < 2" for j
  proof -
    from that have "j = 0 \<or> j = 1" by auto
    with h show ?thesis by (auto simp: isClientError_def)
  qed
  with h have "withRetry operation 3
               = \<lparr>outcome = Inr v, attempts = Suc 2, delays = [] @ map backoff [0..<2]\<rparr>"
    unfolding withRetry_def by (intro withRetry_loop_success) auto
  then show "outcome (withRetry operation 3) = Inr v"
    and "attempts (withRetry operation 3) = 3" by simp_all
qed

text \<open>
  The theorem at two concrete operations: one that recovers on its third invocation, and
  one that never recovers (4 invocations for \<open>maxRetries = 3\<close>).
\<close>

theorem withRetry_attempts_witness:
  "attempts (withRetry failsTwiceThenSucceeds 3) \<le> 4
   \<and> outcome (withRetry failsTwiceThenSucceeds 3) = Inr 7
   \<and> attempts (withRetry failsTwiceThenSucceeds 3) = 3
   \<and> outcome (withRetry alwaysServerFailure 3) = Inl (ApiErrorObject (handleApiError serverError500))
   \<and> attempts (withRetry alwaysServerFailure 3) = 4"
proof -
  have a: "failsTwiceThenSucceeds 0 = Inl serverError500"
          "failsTwiceThenSucceeds 1 = Inl serverError500"
          "failsTwiceThenSucceeds 2 = Inr 7"
          "status (handleApiError serverError500) \<ge> 500"
          "\<not> isClientError (handleApiError serverError500)"
    by (simp_all add: failsTwiceThenSucceeds_def serverError500_def handleApiError_def isClientError_def)
  have b: "\<forall>j<nat 3. \<exists>e'. alwaysServerFailure j = Inl e' \<and> \<not> isClientError (handleApiError e')"
       "alwaysServerFailure (nat 3) = Inl serverError500"
    using a(5) by (simp_all add: alwaysServerFailure_def)
  from withRetry_attempts [of failsTwiceThenSucceeds 3] a
  have 1: "attempts (withRetry failsTwiceThenSucceeds 3) \<le> 4
   \<and> outcome (withRetry failsTwiceThenSucceeds 3) = Inr 7
   \<and> attempts (withRetry failsTwiceThenSucceeds 3) = 3" by simp
  from withRetry_attempts [of alwaysServerFailure 3] b
  have 2: "outcome (withRetry alwaysServerFailure 3) = Inl (ApiErrorObject (handleApiError serverError500))
   \<and> attempts (withRetry alwaysServerFailure 3) = 4" by simp
  from 1 2 show ?thesis by simp
qed

text \<open>
  Claim C1 as stated (at most \<open>maxAttempts\<close> invocations in total) fails: against a server
  that always answers 500, \<open>withRetry(operation, 3)\<close> invokes the operation 4 times.
\<close>

theorem withRetry_attempts_counterexample:
  "\<not> attempts (withRetry alwaysServerFailure 3) \<le> 3"
  by (simp add: retry_eval alwaysServerFailure_def serverError500_def)

text \<open>
  Claim C2, as amended.  For \<open>maxRetries \<ge> 0\<close>, an operation whose first invocation is
  rejected with an HTTP status from 400 to 499 other than 429 is invoked exactly once:
  \<open>withRetry\<close> awaits no delay and throws the classified error, which carries that status.
\<close>

theorem withRetry_client_error:
  "0 \<le> maxRetries \<Longrightarrow> operation 0 = Inl (AxiosError msg (Some r)) \<Longrightarrow>
   400 \<le> resp_status r \<Longrightarrow> resp_status r < 500 \<Longrightarrow> resp_status r \<noteq> 429 \<Longrightarrow>
   withRetry operation maxRetries =
     \<lparr>outcome = Inl (ApiErrorObject (handleApiError (AxiosError msg (Some r)))),
      attempts = 1, delays = []\<rparr>
   \<and> status (handleApiError (AxiosError msg (Some r))) = resp_status r"
proof -
  assume h: "0 \<le> maxRetries" "operation 0 = Inl (AxiosError msg (Some r))"
   "400 \<le> resp_status r" "resp_status r < 500" "resp_status r \<noteq> 429"
  have s: "status (handleApiError (AxiosError msg (Some r))) = resp_status r"
    using h by (simp add: handleApiError_def)
  with h have c: "isClientError (handleApiError (AxiosError msg (Some r)))"
    by (simp add: isClientError_def)
  have "withRetry operation maxRetries =
     \<lparr>outcome = Inl (ApiErrorObject (handleApiError (AxiosError msg (Some r)))),
      attempts = Suc 0, delays = [] @ map backoff [0..<0]\<rparr>"
    unfolding withRetry_def using h c by (intro withRetry_loop_stop) auto
  with s show ?thesis by simp
qed

text \<open>The theorem at a request answered with 404.\<close>

theorem withRetry_client_error_witness:
  "withRetry alwaysNotFound 3 =
     \<lparr>outcome = Inl (ApiErrorObject \<lparr>status = 404, message = ''coin not found''\<rparr>),
      attempts = 1, delays = []\<rparr>"
  using withRetry_client_error [of 3 alwaysNotFound "''Request failed with status code 404''"
     "\<lparr>resp_status = 404, resp_error = Some ''coin not found''\<rparr>"]
  by (simp add: alwaysNotFound_def notFound404_def handleApiError_def)

text \<open>
  Claim C2 as stated fails for the configuration error: \<open>fetchChartData\<close> with the unknown
  timeframe tag \<open>2w\<close> throws a plain \<open>Error\<close>, which \<open>handleApiError\<close> classifies with
  status 500, so \<open>withRetry\<close> retries it and the operation is not attempted exactly once.
\<close>

theorem withRetry_config_error_counterexample:
  "invalidTimeframeFetch 0 = Inl (PlainError ''Invalid timeframe: 2w'')
   \<and> attempts (withRetry invalidTimeframeFetch 3) \<noteq> 1"
  by (simp add: retry_eval invalidTimeframeFetch_def fetchChartData_def TIMEFRAMES_def)

section \<open>Properties of downsampleData\<close>

declare sumLoop.simps [simp del] bestLoop.simps [simp del] bucketLoop.simps [simp del]

lemma bestLoop_pick:
  "bestLoop data e avg j md bp = bp
   \<or> (\<exists>k. j \<le> k \<and> k < e \<and> k < length data \<and> bestLoop data e avg j md bp = Some (data ! k))"
proof (induction data e avg j md bp rule: bestLoop.induct)
  case (1 data endIdx avg j maxDiff bestPoint)
  show ?case
  proof (cases "j < endIdx \<and> j < length data")
    case False
    then have "bestLoop data endIdx avg j maxDiff bestPoint = bestPoint"
      by (subst bestLoop.simps) auto
    then show ?thesis by simp
  next
    case True
    define diff where "diff = js_abs (js_sub (price (data ! j)) avg)"
    show ?thesis
    proof (cases "js_gt diff maxDiff")
      case gt: True
      have eq: "bestLoop data endIdx avg j maxDiff bestPoint
                  = bestLoop data endIdx avg (Suc j) diff (Some (data ! j))"
        using True gt by (subst bestLoop.simps) (simp add: diff_def Let_def)
      from "1.IH"(1) [OF True diff_def gt]
      show ?thesis unfolding eq using True by (auto intro: Suc_leD)
    next
      case ngt: False
      have eq: "bestLoop data endIdx avg j maxDiff bestPoint
                  = bestLoop data endIdx avg (Suc j) maxDiff bestPoint"
        using True ngt by (subst bestLoop.simps) (simp add: diff_def Let_def)
      from "1.IH"(2) [OF True diff_def ngt]
      show ?thesis unfolding eq by (auto intro: Suc_leD)
    qed
  qed
qed

lemma bucketLoop_exit: "\<not> int i < m - 1 \<Longrightarrow> bucketLoop data m bs i res = res"
  by (subst bucketLoop.simps) simp

lemma bucketLoop_picks:
  assumes bs: "1 \<le> bs" and fit: "(m - 1) * int bs \<le> int (length data)"
  shows "int i \<le> m - 1 \<Longrightarrow>
     \<exists>ks. length ks = nat (m - 1 - int i)
        \<and> bucketLoop data m bs i res = res @ map (\<lambda>k. Some (data ! k)) ks
        \<and> (\<forall>t<length ks. (i + t) * bs \<le> ks ! t \<and> ks ! t < (i + t + 1) * bs)"
proof (induction "nat (m - 1 - int i)" arbitrary: i res)
  case 0
  then have "\<not> int i < m - 1" by simp
  then have "bucketLoop data m bs i res = res" by (rule bucketLoop_exit)
  with 0 show ?case by simp
next
  case (Suc n)
  then have lt: "int i < m - 1" by simp
  define start where "start = i * bs"
  define bp where "bp = bestLoop data (start + bs)
      (js_div_count (sumLoop data (start + bs) start (Fin 0)) (start + bs - start))
      start NegInf (js_index data (int start))"
  have step: "bucketLoop data m bs i res = bucketLoop data m bs (Suc i) (res @ [bp])"
    using lt by (subst bucketLoop.simps) (simp add: Let_def bp_def start_def)
  have "int (Suc i) * int bs \<le> (m - 1) * int bs"
    using lt by (intro mult_right_mono) auto
  with fit have "int (Suc i) * int bs \<le> int (length data)" by linarith
  then have "int (Suc i * bs) \<le> int (length data)" by (simp add: algebra_simps)
  then have fit': "Suc i * bs \<le> length data" by linarith
  then have "start + bs \<le> length data" by (simp add: start_def)
  with bs have inr: "start < length data" by simp
  then have idx: "js_index data (int start) = Some (data ! start)" by (simp add: js_index_def)
  have "\<exists>k. bp = Some (data ! k) \<and> start \<le> k \<and> k < start + bs"
  proof -
    from bestLoop_pick [of data "start + bs"
        "js_div_count (sumLoop data (start + bs) start (Fin 0)) (start + bs - start)"
        start NegInf "js_index data (int start)"]
    have "bp = js_index data (int start)
          \<or> (\<exists>k. start \<le> k \<and> k < start + bs \<and> k < length data \<and> bp = Some (data ! k))"
      unfolding bp_def .
    then show ?thesis
    proof
      assume "bp = js_index data (int start)"
      with idx bs have "bp = Some (data ! start) \<and> start \<le> start \<and> start < start + bs"
        by simp
      then show ?thesis by blast
    next
      assume "\<exists>k. start \<le> k \<and> k < start + bs \<and> k < length data \<and> bp = Some (data ! k)"
      then show ?thesis by blast
    qed
  qed
  then obtain k where k: "bp = Some (data ! k)" "start \<le> k" "k < start + bs" by blast
  have "n = nat (m - 1 - int (Suc i))" using Suc.hyps(2) by simp
  moreover have "int (Suc i) \<le> m - 1" using lt by simp
  ultimately obtain ks where ks: "length ks = nat (m - 1 - int (Suc i))"
      "bucketLoop data m bs (Suc i) (res @ [bp]) = (res @ [bp]) @ map (\<lambda>k. Some (data ! k)) ks"
      "\<forall>t<length ks. (Suc i + t) * bs \<le> ks ! t \<and> ks ! t < (Suc i + t + 1) * bs"
    using Suc.hyps(1) [of "Suc i" "res @ [bp]"] by blast
  have 1: "length (k # ks) = nat (m - 1 - int i)" using ks(1) lt by simp
  have 2: "bucketLoop data m bs i res = res @ map (\<lambda>k. Some (data ! k)) (k # ks)"
    using step ks(2) k(1) by simp
  have 3: "(i + t) * bs \<le> (k # ks) ! t \<and> (k # ks) ! t < (i + t + 1) * bs"
    if "t < length (k # ks)" for t
  proof (cases t)
    case 0
    with k show ?thesis by (simp add: start_def)
  next
    case (Suc t')
    with that have "t' < length ks" by simp
    with ks(3) Suc show ?thesis by simp
  qed
  from 1 2 3 show ?case by blast
qed


lemma downsample_endpoints_only:
  assumes "maxPoints \<le> 2" "maxPoints < int (length data)"
  shows "downsampleData data maxPoints
           = [js_index data 0, js_index data (int (length data) - 1)]"
  using assms by (simp add: downsampleData_def bucketLoop_exit)

lemma downsample_shape:
  assumes m2: "2 \<le> maxPoints" and lt: "maxPoints < int (length data)"
  shows "\<exists>ks. length ks = nat (maxPoints - 2)
           \<and> downsampleData data maxPoints
               = map (\<lambda>k. Some (data ! k)) (0 # ks @ [length data - 1])
           \<and> sorted_wrt (<) (0 # ks @ [length data - 1])"
proof -
  define bs where "bs = nat (int (length data) div maxPoints)"
  have mpos: "0 < maxPoints" using m2 by simp
  have "0 < int (length data) div maxPoints"
    using mpos lt by (subst pos_imp_zdiv_pos_iff) auto
  then have bs1: "1 \<le> bs" by (simp add: bs_def)
  have ibs: "int bs = int (length data) div maxPoints" using bs1 by (simp add: bs_def)
  have "maxPoints * int bs \<le> int (length data)"
    using mpos unfolding ibs
    by (metis mult.commute mult_div_mod_eq pos_mod_sign le_add_same_cancel1)
  then have fit: "(maxPoints - 1) * int bs + int bs \<le> int (length data)"
    by (simp add: algebra_simps)
  then have fit': "(maxPoints - 1) * int bs \<le> int (length data)" by linarith
  from bucketLoop_picks [OF bs1 fit', of 1 "[js_index data 0]"] m2
  obtain ks where ks: "length ks = nat (maxPoints - 2)"
      "bucketLoop data maxPoints bs 1 [js_index data 0]
         = [js_index data 0] @ map (\<lambda>k. Some (data ! k)) ks"
      "\<forall>t<length ks. (1 + t) * bs \<le> ks ! t \<and> ks ! t < (1 + t + 1) * bs"
    by (auto simp: algebra_simps)
  have len: "0 < length data" using m2 lt by auto
  then have first: "js_index data 0 = Some (data ! 0)" by (simp add: js_index_def)
  have lm: "int (length data) - 1 = int (length data - 1)" using len by linarith
  have lastp: "js_index data (int (length data) - 1) = Some (data ! (length data - 1))"
    unfolding lm js_index_def using len by simp
  have eq: "downsampleData data maxPoints
              = map (\<lambda>k. Some (data ! k)) (0 # ks @ [length data - 1])"
    using lt ks(2) first lastp by (simp add: downsampleData_def bs_def Let_def)
  have low: "0 < k" and high: "k < length data - 1" if "k \<in> set ks" for k
  proof -
    from that obtain t where t: "t < length ks" "ks ! t = k" by (auto simp: in_set_conv_nth)
    with ks(3) have b: "(1 + t) * bs \<le> k" "k < (1 + t + 1) * bs" by auto
    from b(1) bs1 have "1 * bs \<le> k" by (meson le_add1 mult_le_mono1 order_trans)
    with bs1 show "0 < k" by simp
    from t(1) ks(1) have "int (1 + t + 1) \<le> maxPoints - 1" by simp
    then have "int (1 + t + 1) * int bs \<le> (maxPoints - 1) * int bs"
      by (intro mult_right_mono) auto
    with fit have "int (1 + t + 1) * int bs + int bs \<le> int (length data)" by linarith
    then have "int ((1 + t + 1) * bs + bs) \<le> int (length data)" by (simp add: algebra_simps)
    then have "(1 + t + 1) * bs + bs \<le> length data" by (simp only: of_nat_le_iff)
    with b(2) bs1 show "k < length data - 1" by linarith
  qed
  have inc: "sorted_wrt (<) ks"
    unfolding sorted_wrt_iff_nth_less
  proof (intro allI impI)
    fix i j assume ij: "i < j" "j < length ks"
    with ks(3) have "ks ! i < (1 + i + 1) * bs" "(1 + j) * bs \<le> ks ! j" by auto
    moreover have "(1 + i + 1) * bs \<le> (1 + j) * bs" using ij by (intro mult_le_mono1) simp
    ultimately show "ks ! i < ks ! j" by linarith
  qed
  have "0 < length data - 1" using m2 lt by auto
  with low high inc have "sorted_wrt (<) (0 # ks @ [length data - 1])"
    by (auto simp: sorted_wrt_append)
  with ks(1) eq show ?thesis by blast
qed

lemma sorted_wrt_pick:
  assumes "sorted_wrt P xs" "sorted_wrt (<) ks" "\<forall>k\<in>set ks. k < length xs"
  shows "sorted_wrt P (map ((!) xs) ks)"
proof -
  have "sorted_wrt (\<lambda>a b. P (xs ! a) (xs ! b)) ks"
  proof (rule sorted_wrt_mono_rel [OF _ assms(2)])
    fix a b assume "a \<in> set ks" "b \<in> set ks" "a < b"
    with assms(1,3) show "P (xs ! a) (xs ! b)" by (simp add: sorted_wrt_nth_less)
  qed
  then show ?thesis by (simp add: sorted_wrt_map)
qed

text \<open>
  Claim C4, as amended.  For every series and every \<open>maxPoints\<close> with
  \<open>2 \<le> maxPoints < length\<close>, \<open>downsampleData\<close> returns exactly \<open>maxPoints\<close> points (hence at
  most \<open>maxPoints\<close> and at least 2).  Every returned entry is a point of the input, the
  points are taken at strictly increasing positions of the input, the first is the first
  input point and the last is the last input point; so the result has non-decreasing
  timestamps whenever the input has.
\<close>

theorem downsampleData_reduces:
  assumes "2 \<le> maxPoints" and "maxPoints < int (length data)"
  shows "int (length (downsampleData data maxPoints)) = maxPoints
       \<and> (\<exists>ks. downsampleData data maxPoints = map (\<lambda>k. Some (data ! k)) ks
              \<and> sorted_wrt (<) ks \<and> (\<forall>k\<in>set ks. k < length data)
              \<and> hd ks = 0 \<and> last ks = length data - 1
              \<and> (timestampOrdered data \<longrightarrow> timestampOrdered (map ((!) data) ks)))"
proof -
  from downsample_shape [OF assms]
  obtain ks where ks: "length ks = nat (maxPoints - 2)"
      "downsampleData data maxPoints = map (\<lambda>k. Some (data ! k)) (0 # ks @ [length data - 1])"
      "sorted_wrt (<) (0 # ks @ [length data - 1])"
    by blast
  let ?is = "0 # ks @ [length data - 1]"
  have len: "int (length (downsampleData data maxPoints)) = maxPoints"
    using ks(1,2) assms(1) by simp
  have pos: "0 < length data" using assms by auto
  have bound: "\<forall>k\<in>set ?is. k < length data"
  proof
    fix k assume "k \<in> set ?is"
    then have "k = length data - 1 \<or> k \<in> set (0 # ks)" by auto
    then show "k < length data"
    proof
      assume "k = length data - 1" with pos show ?thesis by simp
    next
      assume "k \<in> set (0 # ks)"
      with ks(3) have "k < length data - 1" by (auto simp: sorted_wrt_append)
      then show ?thesis by simp
    qed
  qed
  have ord: "timestampOrdered data \<longrightarrow> timestampOrdered (map ((!) data) ?is)"
    unfolding timestampOrdered_def using sorted_wrt_pick [OF _ ks(3) bound] by blast
  have "hd ?is = 0" "last ?is = length data - 1" by simp_all
  with len ks(2,3) bound ord show ?thesis by blast
qed

text \<open>
  Claim C5.  When the series has at most \<open>maxPoints\<close> points, \<open>downsampleData\<close> returns it
  unchanged.  Downsampling is idempotent: downsampling a result of \<open>downsampleData\<close> again
  with the same \<open>maxPoints\<close> returns it unchanged.
\<close>

theorem downsampleData_identity:
  "(int (length data) \<le> maxPoints \<longrightarrow> downsampleData data maxPoints = map Some data)
   \<and> (\<forall>r. downsampleData data maxPoints = map Some r
          \<longrightarrow> downsampleData r maxPoints = map Some r)"
proof (intro conjI allI impI)
  assume "int (length data) \<le> maxPoints"
  then show "downsampleData data maxPoints = map Some data" by (simp add: downsampleData_def)
next
  fix r assume r: "downsampleData data maxPoints = map Some r"
  consider (short) "int (length data) \<le> maxPoints"
    | (long) "maxPoints < int (length data)" "2 \<le> maxPoints"
    | (degenerate) "maxPoints < int (length data)" "maxPoints < 2" by linarith
  then show "downsampleData r maxPoints = map Some r"
  proof cases
    case short
    then have "downsampleData data maxPoints = map Some data" by (simp add: downsampleData_def)
    with r have "r = data" by (simp add: map_injective inj_on_def)
    with short show ?thesis by (simp add: downsampleData_def)
  next
    case long
    from downsample_shape [OF long(2,1)] obtain ks where
      "length ks = nat (maxPoints - 2)"
      "downsampleData data maxPoints = map (\<lambda>k. Some (data ! k)) (0 # ks @ [length data - 1])"
      by blast
    then have "length (downsampleData data maxPoints) = nat maxPoints" using long(2) by simp
    with r long(2) have "int (length r) \<le> maxPoints" by simp
    then show ?thesis by (simp add: downsampleData_def)
  next
    case degenerate
    then have "downsampleData data maxPoints
                 = [js_index data 0, js_index data (int (length data) - 1)]"
      by (intro downsample_endpoints_only) auto
    with r obtain a b where ab: "r = [a, b]" by (cases r; cases "tl r") auto
    have "downsampleData r maxPoints = [js_index r 0, js_index r (int (length r) - 1)]"
      using degenerate ab by (intro downsample_endpoints_only) auto
    with ab show ?thesis by (simp add: js_index_def)
  qed
qed

lemmas downsample_eval =
  downsampleData_def bucketLoop.simps bestLoop.simps sumLoop.simps js_index_def js_sub_def
  Let_def

text \<open>
  Claim C4 as stated fails for \<open>maxPoints < 2\<close>: both end points are always kept, so a
  series of 4 points downsampled with \<open>maxPoints = 1\<close> has 2 points.
\<close>

theorem downsampleData_reduces_counterexample:
  "int (length spikeSeries) > 1 \<and> \<not> int (length (downsampleData spikeSeries 1)) \<le> 1"
  by (simp add: spikeSeries_def downsample_eval)

text \<open>The theorem at the series of 4 points with \<open>maxPoints = 3\<close>.\<close>

theorem downsampleData_reduces_witness:
  "downsampleData spikeSeries 3 = [Some (pt 0 1), Some (pt 1 100), Some (pt 3 1)]
   \<and> int (length (downsampleData spikeSeries 3)) = 3"
  using downsampleData_reduces [of 3 spikeSeries]
  by (simp add: spikeSeries_def downsample_eval pt_def)

text \<open>
  The theorem at the series of 4 points: unchanged for \<open>maxPoints = 4\<close>, and its reduction to
  the two end points for \<open>maxPoints = 2\<close> is unchanged by a second pass.
\<close>

theorem downsampleData_identity_witness:
  "downsampleData spikeSeries 4 = map Some spikeSeries
   \<and> downsampleData spikeSeries 2 = map Some [pt 0 1, pt 3 1]
   \<and> downsampleData [pt 0 1, pt 3 1] 2 = map Some [pt 0 1, pt 3 1]"
proof -
  have r: "downsampleData spikeSeries 2 = map Some [pt 0 1, pt 3 1]"
    by (simp add: spikeSeries_def downsample_eval)
  have l: "int (length spikeSeries) \<le> 4" by (simp add: spikeSeries_def)
  from downsampleData_identity [of spikeSeries 4] l
  have 1: "downsampleData spikeSeries 4 = map Some spikeSeries" by blast
  from downsampleData_identity [of spikeSeries 2] r
  have 2: "downsampleData [pt 0 1, pt 3 1] 2 = map Some [pt 0 1, pt 3 1]" by blast
  from 1 r 2 show ?thesis by blast
qed

section \<open>Properties of validateChartData\<close>

lemma validPoint_iff:
  "validPoint p \<longleftrightarrow> (\<exists>x. raw_price p = JNumber (Fin x)) \<and> js_gt (raw_timestamp p) (Fin 0)"
proof (cases "raw_price p")
  case (JNumber n)
  then show ?thesis by (cases n) (auto simp: validPoint_def)
next
  case JNotNumber
  then show ?thesis by (simp add: validPoint_def)
qed

lemma validate_array:
  "validateChartData (JArray data) \<longleftrightarrow> (\<exists>p\<in>set data. validPoint p)"
  by (cases data) (auto simp: validateChartData_def Let_def filter_empty_conv)

text \<open>
  Claim C7.  \<open>validateChartData\<close> returns false exactly when its argument is not an array,
  is the empty array, or contains no point whose price is a finite number (so not \<open>NaN\<close>)
  and whose timestamp is strictly positive.  In particular a series is accepted as soon
  as one point is fully valid, whatever the other points are, and a series whose prices
  are all \<open>NaN\<close> is rejected.
\<close>

theorem validateChartData_rejects:
  "(validateChartData arg = False \<longleftrightarrow>
      arg = JNotArray \<or> arg = JArray []
      \<or> (\<exists>data. arg = JArray data
            \<and> \<not> (\<exists>p\<in>set data. (\<exists>x. raw_price p = JNumber (Fin x))
                                   \<and> js_gt (raw_timestamp p) (Fin 0))))
   \<and> (\<forall>data. (\<exists>p\<in>set data. (\<exists>x. raw_price p = JNumber (Fin x))
                                \<and> js_gt (raw_timestamp p) (Fin 0))
          \<longrightarrow> validateChartData (JArray data) = True)
   \<and> (\<forall>data. (\<forall>p\<in>set data. raw_price p = JNumber NaN)
          \<longrightarrow> validateChartData (JArray data) = False)"
proof (intro conjI allI impI)
  show "validateChartData arg = False \<longleftrightarrow>
      arg = JNotArray \<or> arg = JArray []
      \<or> (\<exists>data. arg = JArray data
            \<and> \<not> (\<exists>p\<in>set data. (\<exists>x. raw_price p = JNumber (Fin x))
                                   \<and> js_gt (raw_timestamp p) (Fin 0)))"
  proof (cases arg)
    case (JArray data)
    then show ?thesis using validate_array [of data] by (auto simp: validPoint_iff)
  next
    case JNotArray
    then show ?thesis by (simp add: validateChartData_def)
  qed
next
  fix data :: "RawPoint list"
  assume "\<exists>p\<in>set data. (\<exists>x. raw_price p = JNumber (Fin x)) \<and> js_gt (raw_timestamp p) (Fin 0)"
  then show "validateChartData (JArray data) = True"
    using validate_array [of data] by (auto simp: validPoint_iff)
next
  fix data :: "RawPoint list"
  assume "\<forall>p\<in>set data. raw_price p = JNumber NaN"
  then show "validateChartData (JArray data) = False"
    using validate_array [of data] by (auto simp: validPoint_iff)
qed

text \<open>
  The theorem at a series with a \<open>NaN\<close> among valid points, at an all-\<open>NaN\<close> series, at a
  non-array and at the empty array.
\<close>

theorem validateChartData_rejects_witness:
  "validateChartData nanAmongValid = True \<and> validateChartData allNaN = False
   \<and> validateChartData JNotArray = False \<and> validateChartData (JArray []) = False"
proof -
  have a: "\<exists>p\<in>set [\<lparr>raw_timestamp = Fin 1000, raw_price = JNumber (Fin 10)\<rparr>,
      \<lparr>raw_timestamp = Fin 2000, raw_price = JNumber NaN\<rparr>,
      \<lparr>raw_timestamp = Fin 3000, raw_price = JNumber (Fin 12)\<rparr>].
         (\<exists>x. raw_price p = JNumber (Fin x)) \<and> js_gt (raw_timestamp p) (Fin 0)"
    by simp
  have b: "\<forall>p\<in>set [\<lparr>raw_timestamp = Fin 1000, raw_price = JNumber NaN\<rparr>,
      \<lparr>raw_timestamp = Fin 2000, raw_price = JNumber NaN\<rparr>]. raw_price p = JNumber NaN"
    by simp
  from validateChartData_rejects [of JNotArray] a b
  have 1: "validateChartData nanAmongValid = True \<and> validateChartData allNaN = False"
    unfolding nanAmongValid_def allNaN_def by blast
  from validateChartData_rejects [of JNotArray]
  have 2: "validateChartData JNotArray = False" by blast
  from validateChartData_rejects [of "JArray []"]
  have 3: "validateChartData (JArray []) = False" by blast
  from 1 2 3 show ?thesis by blast
qed

section \<open>Properties of the error messages\<close>

text \<open>
  Claim C8 does not hold of the code; this is the code at two failing inputs.  Two
  rejections of the same kind (both HTTP 404, both client errors for \<open>withRetry\<close>) get
  different messages from \<open>handleApiError\<close>, which passes on the \<open>error\<close> text of the
  response body, and \<open>withRetry\<close> throws that message on to the caller.
  \<open>formatChartError\<close> appends the message of the underlying error, here one that names
  the endpoint.  \<open>getSafeErrorMessage\<close>, which no caller uses, gives the same fixed string
  at each of these inputs.
\<close>

theorem error_messages_leak:
  "isClientError (handleApiError notFound404) \<and> isClientError (handleApiError notFoundOther)
   \<and> status (handleApiError notFound404) = status (handleApiError notFoundOther)
   \<and> message (handleApiError notFound404) \<noteq> message (handleApiError notFoundOther)
   \<and> message (handleApiError notFoundOther) = ''no row in table coins_v2 at db-internal:5432''
   \<and> outcome (withRetry alwaysNotFound RETRY_MAX_RETRIES)
       = Inl (ApiErrorObject \<lparr>status = 404, message = ''coin not found''\<rparr>)
   \<and> formatChartError timeoutError
       = ''Error al cargar datos: timeout of 10000ms exceeded at https://api.coingecko.com/api/v3/coins/markets''
   \<and> getSafeErrorMessage notFound404 = ''An unexpected error occurred. Please try again.''
   \<and> getSafeErrorMessage notFoundOther = ''An unexpected error occurred. Please try again.''
   \<and> getSafeErrorMessage timeoutError = ''An unexpected error occurred. Please try again.''"
  by (simp add: handleApiError_def notFound404_def notFoundOther_def isClientError_def
        formatChartError_def getSafeErrorMessage_def timeoutError_def errorInstanceMessage_def
        withRetry_def withRetry_loop.simps alwaysNotFound_def RETRY_MAX_RETRIES_def)

section \<open>Properties of the two-stage filter\<close>

lemma clientStage_Winners:
  "allCryptos \<noteq> [] \<Longrightarrow>
   clientStage allCryptos Winners p =
     (let t = (case js_index (sort_key (\<lambda>c. - change24h c) allCryptos)
                      \<lceil>js_mul (real (length allCryptos)) p\<rceil> of
                 None \<Rightarrow> 0 | Some c \<Rightarrow> change24h c)
      in \<lparr>clientFiltered = filter (\<lambda>c. change24h c \<ge> t \<and> change24h c > 0) allCryptos,
          threshold = t\<rparr>)"
  by (simp add: clientStage_def Let_def)

lemma clientStage_Losers:
  "allCryptos \<noteq> [] \<Longrightarrow>
   clientStage allCryptos Losers p =
     (let t = (case js_index (sort_key change24h allCryptos)
                      \<lceil>js_mul (real (length allCryptos)) p\<rceil> of
                 None \<Rightarrow> 0 | Some c \<Rightarrow> change24h c)
      in \<lparr>clientFiltered = filter (\<lambda>c. change24h c \<le> t \<and> change24h c < 0) allCryptos,
          threshold = t\<rparr>)"
  by (simp add: clientStage_def Let_def)

lemma clientStage_Volume:
  "allCryptos \<noteq> [] \<Longrightarrow>
   clientStage allCryptos Volume p =
     (let t = (case js_index (sort_key (\<lambda>c. - total_volume c) allCryptos)
                      \<lceil>js_mul (real (length allCryptos)) p\<rceil> of
                 None \<Rightarrow> 0 | Some c \<Rightarrow> total_volume c)
      in \<lparr>clientFiltered = filter (\<lambda>c. total_volume c \<ge> t) allCryptos,
          threshold = t\<rparr>)"
  by (simp add: clientStage_def Let_def)

lemma clientStage_empty: "clientStage [] ft p = \<lparr>clientFiltered = [], threshold = 0\<rparr>"
  by (simp add: clientStage_def)

lemma clientStage_All: "clientStage xs All p = \<lparr>clientFiltered = xs, threshold = 0\<rparr>"
  by (simp add: clientStage_def)

text \<open>
  Claim C3.  For every snapshot, filter type, options and state of the remote query, the
  hook reports \<open>needsApiCall = true\<close> if and only if the filter type is not \<open>all\<close> and the
  number of records in the Stage-1 result is strictly below \<open>minResultsThreshold\<close>, which
  is 5 when the options do not set it; for the filter type \<open>all\<close> it is always false.
\<close>

theorem needsApiCall_iff:
  "(state_needsApiCall (filteringState (useCryptoFiltering allCryptos filterType options apiData))
     \<longleftrightarrow> filterType \<noteq> All
          \<and> int (length (clientFiltered
                 (clientStage allCryptos filterType
                    (dynamicThresholdPercentage (filteringConfig options)))))
              < minResultsThreshold (filteringConfig options))
   \<and> (opt_minResultsThreshold options = None
        \<longrightarrow> minResultsThreshold (filteringConfig options) = 5)
   \<and> \<not> state_needsApiCall (filteringState (useCryptoFiltering allCryptos All options apiData))"
  by (simp add: useCryptoFiltering_def needsApiCall_def filteringConfig_def
        MIN_RESULTS_THRESHOLD_def Let_def)

text \<open>
  Claim C6.  For a non-empty snapshot, the Stage-1 threshold for \<open>winners\<close> is the 24h
  change read at index \<open>ceil(length * percentage)\<close>, the product being the double product
  of the source, of the snapshot sorted by descending 24h change, and every record of the Stage-1 result is a record of the snapshot with a
  strictly positive change that is at or above the threshold.  For \<open>losers\<close> the snapshot
  is sorted by ascending change, and every record of the result has a strictly negative
  change that is at or below the threshold.  The read is \<open>sorted[index]?.field ?? 0\<close>: an
  index outside the array and a missing field both give 0.
\<close>

theorem stage1_sign_and_side:
  assumes "allCryptos \<noteq> []"
  shows
  "(let sorted = sort_key (\<lambda>c. - change24h c) allCryptos;
        stage = clientStage allCryptos Winners percentage
    in sorted_wrt (\<lambda>a b. change24h a \<ge> change24h b) sorted
       \<and> threshold stage
           = (case js_index sorted \<lceil>js_mul (real (length allCryptos)) percentage\<rceil> of
                None \<Rightarrow> 0 | Some c \<Rightarrow> change24h c)
       \<and> (\<forall>c\<in>set (clientFiltered stage).
             c \<in> set allCryptos \<and> change24h c > 0 \<and> change24h c \<ge> threshold stage))
   \<and> (let sorted = sort_key change24h allCryptos;
           stage = clientStage allCryptos Losers percentage
       in sorted_wrt (\<lambda>a b. change24h a \<le> change24h b) sorted
          \<and> threshold stage
              = (case js_index sorted \<lceil>js_mul (real (length allCryptos)) percentage\<rceil> of
                   None \<Rightarrow> 0 | Some c \<Rightarrow> change24h c)
          \<and> (\<forall>c\<in>set (clientFiltered stage).
                c \<in> set allCryptos \<and> change24h c < 0 \<and> change24h c \<le> threshold stage))"
proof -
  have d: "sorted_wrt (\<lambda>a b. change24h a \<ge> change24h b) (sort_key (\<lambda>c. - change24h c) allCryptos)"
    using sorted_sort_key [of "\<lambda>c. - change24h c" allCryptos] by (simp add: sorted_map)
  have a: "sorted_wrt (\<lambda>a b. change24h a \<le> change24h b) (sort_key change24h allCryptos)"
    using sorted_sort_key [of change24h allCryptos] by (simp add: sorted_map)
  show ?thesis
    using d a by (simp add: clientStage_Winners [OF assms] clientStage_Losers [OF assms] Let_def)
qed

lemma insort_key_map:
  "insort_key f (g x) (map g ys) = map g (insort_key (\<lambda>y. f (g y)) x ys)"
  by (induction ys) simp_all

lemma sort_key_map: "sort_key f (map g xs) = map g (sort_key (\<lambda>y. f (g y)) xs)"
  by (induction xs) (simp_all add: insort_key_map)

lemma change24h_zeroFill [simp]: "change24h (zeroFill c) = change24h c"
  by (simp add: zeroFill_def change24h_def)

lemma total_volume_zeroFill [simp]: "total_volume (zeroFill c) = total_volume c"
  by (simp add: zeroFill_def)

lemma js_index_map: "js_index (map g xs) i = map_option g (js_index xs i)"
proof (cases "0 \<le> i \<and> i < int (length xs)")
  case True
  then have "nat i < length xs" by linarith
  with True show ?thesis by (simp add: js_index_def)
next
  case False
  then show ?thesis by (auto simp: js_index_def)
qed

lemma remoteFiltered_zeroFill:
  "remoteFiltered (map zeroFill xs) ft = map zeroFill (remoteFiltered xs ft)"
  by (cases ft) (simp_all add: remoteFiltered_def sort_key_map filter_map comp_def)

lemma clientStage_zeroFill:
  "clientStage (map zeroFill xs) ft p =
     \<lparr>clientFiltered = map zeroFill (clientFiltered (clientStage xs ft p)),
      threshold = threshold (clientStage xs ft p)\<rparr>"
proof (cases "xs = []")
  case True
  then show ?thesis by (simp add: clientStage_empty)
next
  case False
  then have ne: "map zeroFill xs \<noteq> []" by simp
  show ?thesis
  proof (cases ft)
    case Winners
    show ?thesis unfolding Winners clientStage_Winners [OF ne] clientStage_Winners [OF False]
      by (simp add: Let_def sort_key_map js_index_map filter_map comp_def option.case_eq_if option.map_sel)
  next
    case Losers
    show ?thesis unfolding Losers clientStage_Losers [OF ne] clientStage_Losers [OF False]
      by (simp add: Let_def sort_key_map js_index_map filter_map comp_def option.case_eq_if option.map_sel)
  next
    case Volume
    show ?thesis unfolding Volume clientStage_Volume [OF ne] clientStage_Volume [OF False]
      by (simp add: Let_def sort_key_map js_index_map filter_map comp_def option.case_eq_if option.map_sel)
  next
    case All
    then show ?thesis by (simp add: clientStage_All)
  qed
qed

text \<open>
  Claim C10.  A record whose 24h change is absent counts with the change 0.  It is in no
  \<open>winners\<close> and in no \<open>losers\<close> result, of Stage 1 and of Stage 2 (the filter of
  \<open>queryFn\<close> and so whatever \<open>queryFn\<close> returns), for any snapshot and any threshold
  percentage.  Both stages treat the absent change exactly as the number
  0: replacing every absent change of the input by 0 changes neither the threshold nor
  which records are selected, nor their order.
\<close>

theorem missing_change_is_zero:
  assumes "price_change_percentage_24h c = None"
  shows "change24h c = 0
     \<and> c \<notin> set (clientFiltered (clientStage allCryptos Winners percentage))
     \<and> c \<notin> set (clientFiltered (clientStage allCryptos Losers percentage))
     \<and> c \<notin> set (remoteFiltered expandedData Winners)
     \<and> c \<notin> set (remoteFiltered expandedData Losers)
     \<and> clientStage (map zeroFill allCryptos) filterType percentage
         = \<lparr>clientFiltered =
              map zeroFill (clientFiltered (clientStage allCryptos filterType percentage)),
            threshold = threshold (clientStage allCryptos filterType percentage)\<rparr>
     \<and> remoteFiltered (map zeroFill expandedData) filterType
         = map zeroFill (remoteFiltered expandedData filterType)
     \<and> (\<forall>shown. queryFn fetchListing Winners = Inr shown \<or> queryFn fetchListing Losers = Inr shown
           \<longrightarrow> c \<notin> set shown)"
proof -
  have z: "change24h c = 0" using assms by (simp add: change24h_def)
  have q: "\<forall>shown. queryFn fetchListing Winners = Inr shown \<or> queryFn fetchListing Losers = Inr shown
           \<longrightarrow> c \<notin> set shown"
    using z by (auto simp: queryFn_def remoteFiltered_def split: sum.splits)
  have w: "c \<notin> set (clientFiltered (clientStage allCryptos Winners percentage))"
    using z by (cases "allCryptos = []") (simp_all add: clientStage_empty clientStage_Winners Let_def)
  have l: "c \<notin> set (clientFiltered (clientStage allCryptos Losers percentage))"
    using z by (cases "allCryptos = []") (simp_all add: clientStage_empty clientStage_Losers Let_def)
  have rw: "c \<notin> set (remoteFiltered expandedData Winners)"
    using z by (simp add: remoteFiltered_def)
  have rl: "c \<notin> set (remoteFiltered expandedData Losers)"
    using z by (simp add: remoteFiltered_def)
  from z w l rw rl q show ?thesis
    by (simp add: clientStage_zeroFill remoteFiltered_zeroFill)
qed


declare roundPositive.simps [simp del]

lemmas double_eval =
  toDouble_def js_mul_def roundPositive.simps roundHalfEven_def Let_def

lemmas filter_eval =
  clientStage_def remoteFiltered_def js_index_def coin_def change24h_def Let_def

text \<open>
  The default percentage is the double \<open>0.1\<close>.  The indices of the examples: 5 for 50
  records and 1 for 5 records at \<open>0.1\<close>, and 8 for 100 records at \<open>0.07\<close>, where the exact
  product 7 would give 7.
\<close>

lemma default_percentage_value:
  "DYNAMIC_THRESHOLD_PERCENTAGE = 3602879701896397 / 2 ^ 55"
  by (simp add: DYNAMIC_THRESHOLD_PERCENTAGE_def double_eval)

lemma index_50_default: "\<lceil>js_mul 50 DYNAMIC_THRESHOLD_PERCENTAGE\<rceil> = 5"
  by (simp add: default_percentage_value double_eval)

lemma index_5_default: "\<lceil>js_mul 5 DYNAMIC_THRESHOLD_PERCENTAGE\<rceil> = 1"
proof -
  have "js_mul 5 DYNAMIC_THRESHOLD_PERCENTAGE = 1 / 2"
    by (simp add: default_percentage_value double_eval)
  then show ?thesis by (simp add: ceiling_eq_iff)
qed

lemma product_100_at_7_percent: "js_mul 100 (toDouble (7 / 100)) = 7 + 1 / 2 ^ 50"
  by (simp add: double_eval)

lemma index_100_at_7_percent: "\<lceil>js_mul 100 (toDouble (7 / 100))\<rceil> = 8"
  by (simp add: product_100_at_7_percent)

lemma page50_stage:
  "clientFiltered (clientStage page50 Winners DYNAMIC_THRESHOLD_PERCENTAGE)
     = [coin ''c'' (Some 3), coin ''c'' (Some 2), coin ''c'' (Some 1)]"
  by (simp add: page50_def clientStage_def index_50_default js_index_def coin_def
        change24h_def upt_rec)

lemma page100_stage:
  "clientStage page100 Winners (toDouble (7 / 100))
     = \<lparr>clientFiltered = map (\<lambda>k. coin ''c'' (Some (100 - real k))) [0..<9],
        threshold = 92\<rparr>"
  by (simp add: page100_def clientStage_def index_100_at_7_percent js_index_def coin_def
        change24h_def upt_rec)

lemma smallPage_stage:
  "clientStage smallPage Winners DYNAMIC_THRESHOLD_PERCENTAGE
     = \<lparr>clientFiltered = [coin ''a'' (Some 5), coin ''d'' (Some 1)], threshold = 1\<rparr>"
  "clientStage smallPage Losers DYNAMIC_THRESHOLD_PERCENTAGE
     = \<lparr>clientFiltered = [coin ''c'' (Some (- 2)), coin ''e'' (Some (- 7))], threshold = - 2\<rparr>"
  by (simp_all add: smallPage_def clientStage_def index_5_default js_index_def coin_def
        change24h_def)

text \<open>
  The theorem at the listing page of 50 records with three positive changes, default
  options: Stage 1 keeps three records, fewer than 5, so the hook escalates for
  \<open>winners\<close> and does not for \<open>all\<close>.
\<close>

theorem needsApiCall_iff_witness:
  "state_needsApiCall (filteringState (useCryptoFiltering page50 Winners noOptions None))
   \<and> length (clientFiltered (clientStage page50 Winners DYNAMIC_THRESHOLD_PERCENTAGE)) = 3
   \<and> \<not> state_needsApiCall (filteringState (useCryptoFiltering page50 All noOptions None))"
proof -
  have cfg: "dynamicThresholdPercentage (filteringConfig noOptions) = DYNAMIC_THRESHOLD_PERCENTAGE"
            "minResultsThreshold (filteringConfig noOptions) = 5"
    by (simp_all add: filteringConfig_def noOptions_def MIN_RESULTS_THRESHOLD_def)
  have n: "length (clientFiltered (clientStage page50 Winners DYNAMIC_THRESHOLD_PERCENTAGE)) = 3"
    by (simp add: page50_stage)
  from needsApiCall_iff [of page50 Winners noOptions None] cfg n
  have 1: "state_needsApiCall (filteringState (useCryptoFiltering page50 Winners noOptions None))"
    by simp
  from needsApiCall_iff [of page50 All noOptions None]
  have 2: "\<not> state_needsApiCall (filteringState (useCryptoFiltering page50 All noOptions None))"
    by blast
  from 1 n 2 show ?thesis by blast
qed

text \<open>
  The theorem at a snapshot of five records (changes 5, none, -2, 1, -7) with the
  default percentage: the index is 1, the thresholds are 1 and -2.  And at 100 records
  with the changes 100, ..., 1 and the percentage \<open>0.07\<close>: the index is 8, the threshold
  is 92 and nine records are kept.
\<close>

theorem stage1_sign_and_side_witness:
  "smallPage \<noteq> []
   \<and> threshold (clientStage smallPage Winners DYNAMIC_THRESHOLD_PERCENTAGE) = 1
   \<and> clientFiltered (clientStage smallPage Winners DYNAMIC_THRESHOLD_PERCENTAGE)
       = [coin ''a'' (Some 5), coin ''d'' (Some 1)]
   \<and> list_all (\<lambda>c. change24h c > 0 \<and> change24h c \<ge> 1)
       (clientFiltered (clientStage smallPage Winners DYNAMIC_THRESHOLD_PERCENTAGE))
   \<and> threshold (clientStage smallPage Losers DYNAMIC_THRESHOLD_PERCENTAGE) = - 2
   \<and> list_all (\<lambda>c. change24h c < 0 \<and> change24h c \<le> - 2)
       (clientFiltered (clientStage smallPage Losers DYNAMIC_THRESHOLD_PERCENTAGE))
   \<and> page100 \<noteq> []
   \<and> \<lceil>js_mul (real (length page100)) (toDouble (7 / 100))\<rceil> = 8
   \<and> threshold (clientStage page100 Winners (toDouble (7 / 100))) = 92
   \<and> length (clientFiltered (clientStage page100 Winners (toDouble (7 / 100)))) = 9
   \<and> list_all (\<lambda>c. change24h c > 0 \<and> change24h c \<ge> 92)
       (clientFiltered (clientStage page100 Winners (toDouble (7 / 100))))"
proof -
  have ne: "smallPage \<noteq> []" by (simp add: smallPage_def)
  have ne': "page100 \<noteq> []" by (simp add: page100_def upt_rec)
  have i: "\<lceil>js_mul (real (length page100)) (toDouble (7 / 100))\<rceil> = 8"
    by (simp add: page100_def index_100_at_7_percent)
  have tw: "threshold (clientStage smallPage Winners DYNAMIC_THRESHOLD_PERCENTAGE) = 1"
    and f: "clientFiltered (clientStage smallPage Winners DYNAMIC_THRESHOLD_PERCENTAGE)
             = [coin ''a'' (Some 5), coin ''d'' (Some 1)]"
    and tl: "threshold (clientStage smallPage Losers DYNAMIC_THRESHOLD_PERCENTAGE) = - 2"
    by (simp_all add: smallPage_stage)
  have t100: "threshold (clientStage page100 Winners (toDouble (7 / 100))) = 92"
    and n100: "length (clientFiltered (clientStage page100 Winners (toDouble (7 / 100)))) = 9"
    by (simp_all add: page100_stage)
  note T = stage1_sign_and_side [OF ne, of DYNAMIC_THRESHOLD_PERCENTAGE, unfolded Let_def]
  note T' = stage1_sign_and_side [OF ne', of "toDouble (7 / 100)", unfolded Let_def]
  have bw: "\<forall>c\<in>set (clientFiltered (clientStage smallPage Winners DYNAMIC_THRESHOLD_PERCENTAGE)).
              change24h c > 0 \<and> change24h c \<ge> 1"
    using T tw by auto
  have bl: "\<forall>c\<in>set (clientFiltered (clientStage smallPage Losers DYNAMIC_THRESHOLD_PERCENTAGE)).
              change24h c < 0 \<and> change24h c \<le> - 2"
    using T tl by auto
  have b100: "\<forall>c\<in>set (clientFiltered (clientStage page100 Winners (toDouble (7 / 100)))).
              change24h c > 0 \<and> change24h c \<ge> 92"
    using T' t100 by auto
  from ne f tw tl bw bl ne' i t100 n100 b100 show ?thesis by (simp add: list_all_iff)
qed

text \<open>
  The theorem at the record of that snapshot whose change is absent: it is in the
  snapshot and in none of the four results.
\<close>

theorem missing_change_is_zero_witness:
  "price_change_percentage_24h (coin ''b'' None) = None
   \<and> coin ''b'' None \<in> set smallPage
   \<and> change24h (coin ''b'' None) = 0
   \<and> coin ''b'' None
       \<notin> set (clientFiltered (clientStage smallPage Winners DYNAMIC_THRESHOLD_PERCENTAGE))
   \<and> coin ''b'' None
       \<notin> set (clientFiltered (clientStage smallPage Losers DYNAMIC_THRESHOLD_PERCENTAGE))
   \<and> coin ''b'' None \<notin> set (remoteFiltered smallPage Winners)
   \<and> coin ''b'' None \<notin> set (remoteFiltered smallPage Losers)"
proof -
  have n: "price_change_percentage_24h (coin ''b'' None) = None" by (simp add: coin_def)
  have m: "coin ''b'' None \<in> set smallPage" by (simp add: smallPage_def)
  from missing_change_is_zero [OF n, of smallPage DYNAMIC_THRESHOLD_PERCENTAGE smallPage] n m
  show ?thesis by blast
qed

end
